theory Spec2Isabelle
  imports Main "HOL-Library.Char_ord" "HOL-Library.List_Lexorder" "HOL-Library.AList"
begin

section \<open>Python strings and paths\<close>

text \<open>
  File names and session keys are Python \<open>str\<close> values, modelled as \<open>string\<close>.
  \<open>sorted\<close> on a list of \<open>str\<close> compares lexicographically by code point, a proper
  prefix being smaller: this is the order of \<open>List_Lexorder\<close> over \<open>Char_ord\<close>, and
  \<open>sort\<close> is stable as \<open>sorted\<close> is.  The characters of the model are the 256 values
  of \<open>char\<close>.
\<close>

type_synonym bytes = "char list"

text \<open>\<open>s.endswith(suffix)\<close>.\<close>

definition endswith :: "string \<Rightarrow> string \<Rightarrow> bool" where
  "endswith s suffix \<longleftrightarrow>
     length suffix \<le> length s \<and> drop (length s - length suffix) s = suffix"

text \<open>
  \<open>s.rfind(c)\<close> for a one-character pattern: the highest index holding \<open>c\<close>, or \<open>-1\<close>
  when \<open>c\<close> does not occur.
\<close>

fun rfind :: "string \<Rightarrow> char \<Rightarrow> int" where
  "rfind [] c = - 1"
| "rfind (x # xs) c =
     (let r = rfind xs c in
      if r \<noteq> - 1 then r + 1 else if x = c then 0 else - 1)"

text \<open>
  The slice \<open>s[0:e]\<close>: a negative end counts from the end of the string, and the
  bounds are clamped to the string.
\<close>

definition slice_to :: "string \<Rightarrow> int \<Rightarrow> string" where
  "slice_to s e =
     (let n = int (length s);
          e' = (if e < 0 then max 0 (e + n) else min e n)
      in take (nat e') s)"

text \<open>
  \<open>f[0: f.rfind('_')]\<close>, the experiment name read off an annotated file name in
  \<open>getUploadedFileDF\<close> and \<open>parseUploadedFiles\<close>.
\<close>

definition experiment_name :: "string \<Rightarrow> string" where
  "experiment_name f = slice_to f (rfind f (CHR ''_''))"

text \<open>
  \<open>Path(f).name\<close> on a POSIX path: the last component of \<open>f\<close>, where components are
  separated by \<open>/\<close> and empty components and \<open>.\<close> are dropped; the empty string when
  no component is left.
\<close>

fun split_slash :: "string \<Rightarrow> string list" where
  "split_slash [] = [[]]"
| "split_slash (x # xs) =
     (if x = CHR ''/'' then [] # split_slash xs
      else (case split_slash xs of
              [] \<Rightarrow> [[x]]
            | p # ps \<Rightarrow> (x # p) # ps))"

definition path_name :: "string \<Rightarrow> string" where
  "path_name f =
     (case filter (\<lambda>p. p \<noteq> [] \<and> p \<noteq> ''.'') (split_slash f) of
        [] \<Rightarrow> []
      | ps \<Rightarrow> last ps)"

section \<open>Session state, workspace directories and effects\<close>

text \<open>
  The exceptions the modelled code can raise.  \<open>ParserError\<close> stands for whatever the
  external \<open>parseFLASHDeconvOutput\<close> raises on input it rejects.
\<close>

datatype exn =
    KeyError string
  | FileNotFoundError string string
  | ValueError
  | ParserError

datatype 'r result = Returned 'r | Raised exn

text \<open>One row of the data frame built by \<open>getUploadedFileDF\<close>, named by its columns.\<close>

record row =
  Experiment_Name :: string
  Deconvolved_Files :: string
  Annotated_Files :: string

type_synonym path = "string \<times> string"

text \<open>
  What a run shows to the user, in order (\<open>st.error\<close>, \<open>st.info\<close>, \<open>st.warning\<close>,
  \<open>st.markdown\<close>, \<open>st.success\<close>, \<open>st.spinner\<close>, \<open>st.write\<close>, \<open>st.dataframe\<close>), and the
  calls it makes to the external parser with the annotated and the deconvolved path.
\<close>

datatype effect =
    Error string
  | Info string
  | Warning string
  | Markdown string
  | Success string
  | Spinner string
  | Write string
  | Dataframe "row list"
  | Parse path path

text \<open>
  A directory is the association list of its entries (file name, content); the
  workspace maps the name of a sub-directory to its entries, \<open>None\<close> when the directory
  does not exist.  File names are single path components.

  \<open>st.session_state\<close> is modelled by the keys these pages use, grouped by the type of
  their values: the lists of known file names (\<open>'deconv-mzMLs'\<close>, \<open>'anno-mzMLs'\<close>), the
  dictionaries of parsed tables (\<open>'deconv_dfs'\<close>, \<open>'anno_dfs'\<close>), \<open>'experiment-df'\<close>
  and \<open>'progress_bar_space'\<close>.  A key that is absent maps to \<open>None\<close> (\<open>False\<close> for
  \<open>progress_bar_space\<close>), and subscripting it raises \<open>KeyError\<close>.  A Python \<open>dict\<close> is
  an association list in insertion order: \<open>d[k] = v\<close> is \<open>AList.update\<close>, \<open>del d[k]\<close>
  is \<open>AList.delete\<close> on a key that is present.
\<close>

type_synonym directory = "(string \<times> bytes) list"

record 'df session =
  workspace :: "string \<rightharpoonup> directory"
  name_lists :: "string \<rightharpoonup> string list"
  df_caches :: "string \<rightharpoonup> (string \<times> 'df) list"
  experiment_df :: "row list option"
  progress_bar_space :: bool

definition input_file_types :: "string list" where
  "input_file_types = [''deconv-mzMLs'', ''anno-mzMLs'']"

definition parsed_df_types :: "string list" where
  "parsed_df_types = [''deconv_dfs'', ''anno_dfs'']"

text \<open>
  The external parser \<open>parseFLASHDeconvOutput(anno_path, deconv_path)\<close>: it reads the
  workspace and returns \<open>(spec_df, anno_df, tolerance, massoffset, chargemass)\<close>, or
  raises (\<open>None\<close>).
\<close>

type_synonym ('df, 'c) parser =
  "(string \<rightharpoonup> directory) \<Rightarrow> path \<Rightarrow> path \<Rightarrow> ('df \<times> 'df \<times> 'c \<times> 'c \<times> 'c) option"

subsection \<open>\<open>initializeWorkspace\<close>\<close>

text \<open>
  For each directory name: \<open>mkdir(parents=True, exist_ok=True)\<close> keeps an existing
  directory and creates an empty one otherwise; the session key is created when absent
  and then set to \<open>os.listdir\<close> of the directory.
\<close>

fun initialize_dirs :: "string list \<Rightarrow> 'df session \<Rightarrow> 'df session" where
  "initialize_dirs [] s = s"
| "initialize_dirs (dirname # rest) s =
     (let entries = (case workspace s dirname of None \<Rightarrow> [] | Some es \<Rightarrow> es);
          s1 = s\<lparr>workspace := (workspace s)(dirname \<mapsto> entries)\<rparr>;
          s2 = (if name_lists s1 dirname = None
                then s1\<lparr>name_lists := (name_lists s1)(dirname \<mapsto> [])\<rparr> else s1);
          s3 = s2\<lparr>name_lists := (name_lists s2)(dirname \<mapsto> map fst entries)\<rparr>
      in initialize_dirs rest s3)"

fun initialize_dfs :: "string list \<Rightarrow> 'df session \<Rightarrow> 'df session" where
  "initialize_dfs [] s = s"
| "initialize_dfs (df_type # rest) s =
     initialize_dfs rest
       (if df_caches s df_type = None
        then s\<lparr>df_caches := (df_caches s)(df_type \<mapsto> [])\<rparr> else s)"

definition initializeWorkspace ::
  "string list \<Rightarrow> string list \<Rightarrow> 'df session \<Rightarrow> 'df session" where
  "initializeWorkspace input_file_types' parsed_df_types' s =
     initialize_dfs parsed_df_types' (initialize_dirs input_file_types' s)"

subsection \<open>\<open>getUploadedFileDF\<close>\<close>

text \<open>
  \<open>pd.DataFrame\<close> of three columns raises \<open>ValueError\<close> when their lengths differ;
  the experiment names have the length of the annotated column.
\<close>

definition getUploadedFileDF :: "string list \<Rightarrow> string list \<Rightarrow> row list result" where
  "getUploadedFileDF deconv_files anno_files =
     (let deconv_files' = map path_name deconv_files;
          anno_files' = map path_name anno_files;
          experiment_names = map experiment_name anno_files'
      in if length deconv_files' \<noteq> length anno_files' then Raised ValueError
         else Returned
           (map (\<lambda>(e, d, a).
                  \<lparr>Experiment_Name = e, Deconvolved_Files = d, Annotated_Files = a\<rparr>)
              (zip experiment_names (zip deconv_files' anno_files'))))"

subsection \<open>\<open>handleInputFiles\<close>\<close>

text \<open>
  An uploaded file is its name and its bytes.  \<open>open(path, "wb")\<close> raises
  \<open>FileNotFoundError\<close> when the directory is missing and otherwise creates or
  overwrites the entry.  An exception leaves the session as the files before it made it.
\<close>

type_synonym uploaded_file = "string \<times> bytes"

fun handleInputFiles :: "uploaded_file list \<Rightarrow> 'df session \<Rightarrow> unit result \<times> 'df session" where
  "handleInputFiles [] s = (Returned (), s)"
| "handleInputFiles ((file_name, buffer) # rest) s =
     (if \<not> endswith file_name ''mzML'' then handleInputFiles rest s
      else
        let session_name =
              (if endswith file_name ''_deconv.mzML'' then ''deconv-mzMLs''
               else if endswith file_name ''_annotated.mzML'' then ''anno-mzMLs''
               else '''')
        in case name_lists s session_name of
             None \<Rightarrow> (Raised (KeyError session_name), s)
           | Some known \<Rightarrow>
               if file_name \<notin> set known then
                 (case workspace s session_name of
                    None \<Rightarrow> (Raised (FileNotFoundError session_name file_name), s)
                  | Some entries \<Rightarrow>
                      handleInputFiles rest
                        (s\<lparr>workspace :=
                             (workspace s)(session_name \<mapsto> AList.update file_name buffer entries),
                           name_lists :=
                             (name_lists s)(session_name \<mapsto> known @ [file_name])\<rparr>))
               else handleInputFiles rest s)"

subsection \<open>\<open>parseUploadedFiles\<close>\<close>

text \<open>
  \<open>[f for f in files if f not in st.session_state[df_type]]\<close>: the session key is
  subscripted once per element, so an empty list never raises.
\<close>

definition not_yet_parsed :: "'df session \<Rightarrow> string list \<Rightarrow> string \<Rightarrow> string list result" where
  "not_yet_parsed s files df_type =
     (if files = [] then Returned []
      else case df_caches s df_type of
             None \<Rightarrow> Raised (KeyError df_type)
           | Some cache \<Rightarrow> Returned (filter (\<lambda>f. f \<notin> set (map fst cache)) files))"

text \<open>
  The loop over \<open>zip(new_anno_files, new_deconv_files)\<close>.  The two assignments to the
  caches come after the call of the parser, and nothing catches what it raises.
\<close>

fun parse_pairs ::
  "('df, 'c) parser \<Rightarrow> (string \<times> string) list \<Rightarrow> 'df session
     \<Rightarrow> unit result \<times> 'df session \<times> effect list" where
  "parse_pairs parser [] s = (Returned (), s, [])"
| "parse_pairs parser ((anno_f, deconv_f) # rest) s =
     (if \<not> endswith anno_f ''.mzML'' then parse_pairs parser rest s
      else
        let exp_name = experiment_name anno_f;
            started = [Spinner (''Parsing the experiment '' @ exp_name @ ''...''),
                       Parse (''anno-mzMLs'', anno_f) (''deconv-mzMLs'', deconv_f)]
        in case parser (workspace s) (''anno-mzMLs'', anno_f) (''deconv-mzMLs'', deconv_f) of
             None \<Rightarrow> (Raised ParserError, s, started)
           | Some (spec_df, anno_df, tolerance, massoffset, chargemass) \<Rightarrow>
               (case df_caches s ''anno_dfs'' of
                  None \<Rightarrow> (Raised (KeyError ''anno_dfs''), s, started)
                | Some anno_dfs \<Rightarrow>
                    let s1 = s\<lparr>df_caches :=
                               (df_caches s)(''anno_dfs'' \<mapsto> AList.update anno_f anno_df anno_dfs)\<rparr>
                    in case df_caches s1 ''deconv_dfs'' of
                         None \<Rightarrow> (Raised (KeyError ''deconv_dfs''), s1, started)
                       | Some deconv_dfs \<Rightarrow>
                           let s2 = s1\<lparr>df_caches :=
                                      (df_caches s1)(''deconv_dfs'' \<mapsto>
                                         AList.update deconv_f spec_df deconv_dfs)\<rparr>;
                               done = Success (''Done parsing the experiment '' @ exp_name @ ''!'')
                           in case parse_pairs parser rest s2 of
                                (r, s3, effects) \<Rightarrow> (r, s3, started @ done # effects)))"

definition pairing_error_message :: string where
  "pairing_error_message =
     ''Added files are not in pair, so not parsed. '' @ [CHR 0x0A] @
     '' Here are uploaded ones, but not parsed ones:''"

definition parseUploadedFiles ::
  "('df, 'c) parser \<Rightarrow> 'df session \<Rightarrow> unit result \<times> 'df session \<times> effect list" where
  "parseUploadedFiles parser s =
     (case name_lists s ''deconv-mzMLs'' of
        None \<Rightarrow> (Raised (KeyError ''deconv-mzMLs''), s, [])
      | Some deconv_files \<Rightarrow>
     (case name_lists s ''anno-mzMLs'' of
        None \<Rightarrow> (Raised (KeyError ''anno-mzMLs''), s, [])
      | Some anno_files \<Rightarrow>
     (case not_yet_parsed s deconv_files ''deconv_dfs'' of
        Raised e \<Rightarrow> (Raised e, s, [])
      | Returned new_deconv_files \<Rightarrow>
     (case not_yet_parsed s anno_files ''anno_dfs'' of
        Raised e \<Rightarrow> (Raised e, s, [])
      | Returned new_anno_files \<Rightarrow>
          if length new_deconv_files = 0 \<and> length new_anno_files = 0 then (Returned (), s, [])
          else if length new_deconv_files \<noteq> length new_anno_files then
            (Returned (), s,
             Error pairing_error_message #
             map (\<lambda>i. Markdown (''- '' @ i)) (new_deconv_files @ new_anno_files))
          else if \<not> progress_bar_space s then (Raised (KeyError ''progress_bar_space''), s, [])
          else parse_pairs parser (zip (sort new_anno_files) (sort new_deconv_files)) s))))"

subsection \<open>\<open>showUploadedFilesTable\<close>\<close>

definition showUploadedFilesTable :: "'df session \<Rightarrow> bool result \<times> 'df session \<times> effect list" where
  "showUploadedFilesTable s =
     (case df_caches s ''deconv_dfs'' of
        None \<Rightarrow> (Raised (KeyError ''deconv_dfs''), s, [])
      | Some deconv_dfs \<Rightarrow>
     (case df_caches s ''anno_dfs'' of
        None \<Rightarrow> (Raised (KeyError ''anno_dfs''), s, [])
      | Some anno_dfs \<Rightarrow>
          let deconv_files = sort (map fst deconv_dfs);
              anno_files = sort (map fst anno_dfs)
          in if length deconv_files = 0 \<and> length anno_files = 0 then
               (Returned False, s, [Info ''No mzML added yet!''])
             else if length deconv_files = 0 then
               (Returned False, s,
                [Error ''FLASHDeconv deconvolved mzML file is not added yet!''])
             else if length anno_files = 0 then
               (Returned False, s,
                [Error ''FLASHDeconv annotated mzML file is not added yet!''])
             else if length deconv_files \<noteq> length anno_files then
               (Returned False, s,
                [Error ''The same number of deconvolved and annotated mzML file should be uploaded!''])
             else
               (case getUploadedFileDF deconv_files anno_files of
                  Raised e \<Rightarrow> (Raised e, s, [Write ''#'', Write ''#''])
                | Returned df \<Rightarrow>
                    (Returned True, s\<lparr>experiment_df := Some df\<rparr>,
                     [Write ''#'', Write ''#'',
                      Markdown ''**Uploaded experiments in current workspace**'',
                      Dataframe df, Write ''#'']))))"

subsection \<open>\<open>postprocessingAfterUpload_FD\<close>\<close>

definition postprocessingAfterUpload_FD ::
  "('df, 'c) parser \<Rightarrow> 'df session \<Rightarrow> unit result \<times> 'df session \<times> effect list" where
  "postprocessingAfterUpload_FD parser s =
     (case parseUploadedFiles parser (initializeWorkspace input_file_types parsed_df_types s) of
        (Raised e, s1, effects) \<Rightarrow> (Raised e, s1, effects)
      | (Returned _, s1, effects) \<Rightarrow>
          (case showUploadedFilesTable s1 of
             (Raised e, s2, effects') \<Rightarrow> (Raised e, s2, effects @ effects')
           | (Returned _, s2, effects') \<Rightarrow> (Returned (), s2, effects @ effects')))"

subsection \<open>\<open>remove_selected_mzML_files\<close>\<close>

text \<open>
  \<open>Path(mzml_dir, file_name).unlink()\<close> raises \<open>FileNotFoundError\<close> when the file (or
  its directory) is absent.
\<close>

definition unlink ::
  "(string \<rightharpoonup> directory) \<Rightarrow> string \<Rightarrow> string \<Rightarrow> (string \<rightharpoonup> directory) result" where
  "unlink ws dir file_name =
     (case ws dir of
        None \<Rightarrow> Raised (FileNotFoundError dir file_name)
      | Some entries \<Rightarrow>
          if file_name \<in> set (map fst entries)
          then Returned (ws(dir \<mapsto> AList.delete file_name entries))
          else Raised (FileNotFoundError dir file_name))"

text \<open>The inner loop, over the experiment names, for one kind of file.\<close>

fun remove_files ::
  "string \<Rightarrow> string \<Rightarrow> string \<Rightarrow> string list \<Rightarrow> 'df session \<Rightarrow> unit result \<times> 'df session" where
  "remove_files input_type df_type file_postfix [] s = (Returned (), s)"
| "remove_files input_type df_type file_postfix (exp_name # rest) s =
     (let file_name = exp_name @ file_postfix
      in case unlink (workspace s) input_type file_name of
           Raised e \<Rightarrow> (Raised e, s)
         | Returned ws \<Rightarrow>
             let s1 = s\<lparr>workspace := ws\<rparr>
             in case df_caches s1 df_type of
                  None \<Rightarrow> (Raised (KeyError df_type), s1)
                | Some dfs \<Rightarrow>
                    if file_name \<notin> set (map fst dfs) then (Raised (KeyError file_name), s1)
                    else remove_files input_type df_type file_postfix rest
                           (s1\<lparr>df_caches :=
                                 (df_caches s1)(df_type \<mapsto> AList.delete file_name dfs)\<rparr>))"

text \<open>The outer loop, over \<open>zip(input_file_types, parsed_df_types, [postfixes])\<close>.\<close>

fun remove_kinds ::
  "(string \<times> string \<times> string) list \<Rightarrow> string list \<Rightarrow> 'df session \<Rightarrow> unit result \<times> 'df session" where
  "remove_kinds [] to_remove s = (Returned (), s)"
| "remove_kinds ((input_type, df_type, file_postfix) # kinds) to_remove s =
     (case remove_files input_type df_type file_postfix to_remove s of
        (Raised e, s1) \<Rightarrow> (Raised e, s1)
      | (Returned _, s1) \<Rightarrow> remove_kinds kinds to_remove s1)"

text \<open>
  After the loops the rows whose experiment name is selected are dropped from the
  data frame held in the session.
\<close>

definition remove_selected_mzML_files ::
  "string list \<Rightarrow> 'p \<Rightarrow> 'df session \<Rightarrow> 'p result \<times> 'df session \<times> effect list" where
  "remove_selected_mzML_files to_remove params s =
     (case remove_kinds
             (zip input_file_types (zip parsed_df_types [''_deconv.mzML'', ''_annotated.mzML'']))
             to_remove s of
        (Raised e, s1) \<Rightarrow> (Raised e, s1, [])
      | (Returned _, s1) \<Rightarrow>
          (case experiment_df s1 of
             None \<Rightarrow> (Raised (KeyError ''experiment-df''), s1, [])
           | Some tmp_df \<Rightarrow>
               (Returned params,
                s1\<lparr>experiment_df :=
                     Some (filter (\<lambda>r. Experiment_Name r \<notin> set to_remove) tmp_df)\<rparr>,
                [Success ''Selected mzML files removed!''])))"

subsection \<open>\<open>reset_directory\<close> and the remove-all branch of the page\<close>

definition reset_directory :: "(string \<rightharpoonup> directory) \<Rightarrow> string \<Rightarrow> (string \<rightharpoonup> directory)" where
  "reset_directory ws path =
     (let ws1 = (if ws path \<noteq> None then ws(path := None) else ws)
      in case ws1 path of None \<Rightarrow> ws1(path \<mapsto> []) | Some _ \<Rightarrow> ws1)"

fun remove_all_loop :: "(string \<times> string) list \<Rightarrow> 'df session \<Rightarrow> 'df session" where
  "remove_all_loop [] s = s"
| "remove_all_loop ((file_option, df_option) # rest) s =
     (let s1 = (if name_lists s file_option \<noteq> None
                then s\<lparr>workspace := reset_directory (workspace s) file_option,
                       name_lists := (name_lists s)(file_option \<mapsto> [])\<rparr>
                else s);
          s2 = (if df_caches s1 df_option \<noteq> None
                then s1\<lparr>df_caches := (df_caches s1)(df_option \<mapsto> [])\<rparr>
                else s1)
      in remove_all_loop rest s2)"

text \<open>
  The body of the \<open>Remove all\<close> button, up to \<open>st.rerun()\<close>:
  \<open>del st.session_state["experiment-df"]\<close> raises \<open>KeyError\<close> on an absent key.
\<close>

definition remove_all :: "'df session \<Rightarrow> unit result \<times> 'df session \<times> effect list" where
  "remove_all s =
     (let s1 = remove_all_loop (zip input_file_types parsed_df_types) s
      in case experiment_df s1 of
           None \<Rightarrow> (Raised (KeyError ''experiment-df''), s1, [Success ''All mzML files removed!''])
         | Some _ \<Rightarrow>
             (Returned (), s1\<lparr>experiment_df := None\<rparr>, [Success ''All mzML files removed!'']))"

subsection \<open>The upload page\<close>

text \<open>
  The script of the page from \<open>initializeWorkspace\<close> to \<open>showUploadedFilesTable\<close>, in
  a run where the button of the example data is not pressed: \<open>submitted\<close> is \<open>None\<close>
  when the form's button was not pressed and otherwise the files of the uploader (an
  empty list is falsy).  An exception ends the run.
\<close>

definition upload_page ::
  "('df, 'c) parser \<Rightarrow> uploaded_file list option \<Rightarrow> 'df session
     \<Rightarrow> bool result \<times> 'df session \<times> effect list" where
  "upload_page parser submitted s =
     (let s0 = initializeWorkspace input_file_types parsed_df_types s;
          (r1, s1, effects1) =
            (case submitted of
               None \<Rightarrow> (Returned (), s0, [])
             | Some uploaded_file \<Rightarrow>
                 if uploaded_file \<noteq> [] then
                   (case handleInputFiles uploaded_file s0 of
                      (Raised e, s') \<Rightarrow> (Raised e, s', [])
                    | (Returned _, s') \<Rightarrow>
                        (Returned (), s', [Success ''Successfully added uploaded files!'']))
                 else (Returned (), s0, [Warning ''Upload some files before adding them.'']))
      in case r1 of
           Raised e \<Rightarrow> (Raised e, s1, effects1)
         | Returned _ \<Rightarrow>
             (case parseUploadedFiles parser (s1\<lparr>progress_bar_space := True\<rparr>) of
                (Raised e, s2, effects2) \<Rightarrow> (Raised e, s2, effects1 @ effects2)
              | (Returned _, s2, effects2) \<Rightarrow>
                  (case showUploadedFilesTable s2 of
                     (r3, s3, effects3) \<Rightarrow> (r3, s3, effects1 @ effects2 @ effects3))))"

section \<open>The parameter store\<close>

text \<open>
  A parameter dictionary is an association list from option name to value, and the
  workspace's \<open>params.json\<close> is the dictionary it holds, \<open>None\<close> when the file does not
  exist.  The values are those \<open>json\<close> can write and read back.
\<close>

type_synonym 'v params = "(string \<times> 'v) list"




section \<open>Example sessions\<close>

text \<open>
  A session that has not visited the page yet, in a workspace without sub-directories,
  and a parser that accepts every pair.
\<close>

definition new_session :: "'df session" where
  "new_session =
     \<lparr>workspace = Map.empty, name_lists = Map.empty, df_caches = Map.empty,
      experiment_df = None, progress_bar_space = False\<rparr>"

definition example_parser :: "(string, nat) parser" where
  "example_parser ws anno_path deconv_path =
     Some (''spec of '' @ snd deconv_path, ''anno of '' @ snd anno_path, 0, 0, 0)"

text \<open>Two deconvolved files and one annotated file have been uploaded.\<close>

definition two_deconv_one_anno :: "string session" where
  "two_deconv_one_anno =
     snd (handleInputFiles
            [(''a_deconv.mzML'', ''1''), (''b_deconv.mzML'', ''2''), (''a_annotated.mzML'', ''3'')]
            (initializeWorkspace input_file_types parsed_df_types new_session))"

text \<open>One experiment has been uploaded, parsed and shown.\<close>

definition exp1_uploaded :: "string session" where
  "exp1_uploaded =
     fst (snd (upload_page example_parser
       (Some [(''exp1_deconv.mzML'', ''d''), (''exp1_annotated.mzML'', ''a'')]) new_session))"

text \<open>
  Two pairs have been uploaded, in an order that is not the sorted one, and the page
  has set up its progress bar; a parser that rejects the pair of \<open>b_annotated.mzML\<close>.
\<close>

definition two_pairs_uploaded :: "string session" where
  "two_pairs_uploaded =
     (snd (handleInputFiles
             [(''b_deconv.mzML'', ''1''), (''a_deconv.mzML'', ''2''),
              (''a_annotated.mzML'', ''3''), (''b_annotated.mzML'', ''4'')]
             (initializeWorkspace input_file_types parsed_df_types new_session)))
     \<lparr>progress_bar_space := True\<rparr>"

definition rejecting_b_parser :: "(string, nat) parser" where
  "rejecting_b_parser ws anno_path deconv_path =
     (if snd anno_path = ''b_annotated.mzML'' then None
      else example_parser ws anno_path deconv_path)"



section \<open>Predicates used in the statements\<close>

text \<open>No list of known file names in the session holds a name twice.\<close>

definition names_distinct :: "'df session \<Rightarrow> bool" where
  "names_distinct s \<longleftrightarrow> (\<forall>key known. name_lists s key = Some known \<longrightarrow> distinct known)"

text \<open>
  The pairs of the loop of \<open>parseUploadedFiles\<close> that are not skipped (the annotated
  name ends in \<open>.mzML\<close>), and what the loop shows and calls for a pair the parser
  accepts.
\<close>

definition parsed_pairs :: "(string \<times> string) list \<Rightarrow> (string \<times> string) list" where
  "parsed_pairs pairs = filter (\<lambda>(a, d). endswith a ''.mzML'') pairs"

definition parsed_pair_effects :: "string \<times> string \<Rightarrow> effect list" where
  "parsed_pair_effects = (\<lambda>(anno_f, deconv_f).
     [Spinner (''Parsing the experiment '' @ experiment_name anno_f @ ''...''),
      Parse (''anno-mzMLs'', anno_f) (''deconv-mzMLs'', deconv_f),
      Success (''Done parsing the experiment '' @ experiment_name anno_f @ ''!'')])"

text \<open>
  \<open>Path(workspace, dir, file_name).exists()\<close>, and what is left of a directory or of a
  cache once the files of the experiments \<open>to_remove\<close> with the given postfix are gone.
\<close>

definition file_exists :: "(string \<rightharpoonup> directory) \<Rightarrow> string \<Rightarrow> string \<Rightarrow> bool" where
  "file_exists ws dir file_name \<longleftrightarrow>
     (case ws dir of None \<Rightarrow> False | Some entries \<Rightarrow> file_name \<in> fst ` set entries)"

definition without :: "string list \<Rightarrow> string \<Rightarrow> (string \<times> 'a) list \<Rightarrow> (string \<times> 'a) list" where
  "without to_remove file_postfix entries =
     filter (\<lambda>(file_name, _). file_name \<notin> (\<lambda>exp_name. exp_name @ file_postfix) ` set to_remove)
       entries"

section \<open>Properties of the upload page\<close>

lemma initializeWorkspace_new_session:
  "initializeWorkspace input_file_types parsed_df_types (new_session :: 'df session) =
  \<lparr>workspace = [''deconv-mzMLs'' \<mapsto> [], ''anno-mzMLs'' \<mapsto> []],
   name_lists = [''deconv-mzMLs'' \<mapsto> [], ''anno-mzMLs'' \<mapsto> []],
   df_caches = [''deconv_dfs'' \<mapsto> [], ''anno_dfs'' \<mapsto> []],
   experiment_df = None, progress_bar_space = False\<rparr>"
  by (simp add: initializeWorkspace_def input_file_types_def parsed_df_types_def new_session_def)

lemma two_deconv_one_anno_eq:
  "two_deconv_one_anno =
  \<lparr>workspace = [''deconv-mzMLs'' \<mapsto> [(''a_deconv.mzML'', ''1''), (''b_deconv.mzML'', ''2'')],
                 ''anno-mzMLs'' \<mapsto> [(''a_annotated.mzML'', ''3'')]],
   name_lists = [''deconv-mzMLs'' \<mapsto> [''a_deconv.mzML'', ''b_deconv.mzML''],
                 ''anno-mzMLs'' \<mapsto> [''a_annotated.mzML'']],
   df_caches = [''deconv_dfs'' \<mapsto> [], ''anno_dfs'' \<mapsto> []],
   experiment_df = None, progress_bar_space = False\<rparr>"
  by (simp add: two_deconv_one_anno_def initializeWorkspace_new_session endswith_def Let_def
        fun_upd_twist)

lemmas eval_defs = upload_page_def initializeWorkspace_new_session endswith_def
  parseUploadedFiles_def not_yet_parsed_def example_parser_def showUploadedFilesTable_def
  getUploadedFileDF_def experiment_name_def slice_to_def path_name_def Let_def

lemma exp1_uploaded_eq:
  "exp1_uploaded =
  \<lparr>workspace = [''deconv-mzMLs'' \<mapsto> [(''exp1_deconv.mzML'', ''d'')],
                 ''anno-mzMLs'' \<mapsto> [(''exp1_annotated.mzML'', ''a'')]],
   name_lists = [''deconv-mzMLs'' \<mapsto> [''exp1_deconv.mzML''],
                 ''anno-mzMLs'' \<mapsto> [''exp1_annotated.mzML'']],
   df_caches = [''deconv_dfs'' \<mapsto> [(''exp1_deconv.mzML'', ''spec of exp1_deconv.mzML'')],
                ''anno_dfs'' \<mapsto> [(''exp1_annotated.mzML'', ''anno of exp1_annotated.mzML'')]],
   experiment_df = Some [\<lparr>Experiment_Name = ''exp1'', Deconvolved_Files = ''exp1_deconv.mzML'',
        Annotated_Files = ''exp1_annotated.mzML''\<rparr>], progress_bar_space = True\<rparr>"
  by (simp add: exp1_uploaded_def eval_defs fun_upd_twist)

subsection \<open>Pairing mismatch\<close>

text \<open>
  Claim C1.  In a cycle where the number of new deconvolved names (known names that are
  not keys of the deconvolved cache) differs from the number of new annotated names,
  \<open>parseUploadedFiles\<close> shows the pairing error followed by one line per name of both
  new lists, calls the parser for none of them and returns the session as it found it;
  when both new lists are empty it shows nothing and returns the session unchanged.
\<close>

theorem parseUploadedFiles_pairing_mismatch:
  assumes "name_lists s ''deconv-mzMLs'' = Some deconv_files"
    and "name_lists s ''anno-mzMLs'' = Some anno_files"
    and "df_caches s ''deconv_dfs'' = Some deconv_dfs"
    and "df_caches s ''anno_dfs'' = Some anno_dfs"
    and "new_deconv = filter (\<lambda>f. f \<notin> fst ` set deconv_dfs) deconv_files"
    and "new_anno = filter (\<lambda>f. f \<notin> fst ` set anno_dfs) anno_files"
  shows "(length new_deconv \<noteq> length new_anno \<longrightarrow>
            parseUploadedFiles parser s =
              (Returned (), s,
               Error pairing_error_message #
               map (\<lambda>f. Markdown (''- '' @ f)) (new_deconv @ new_anno))) \<and>
         (new_deconv = [] \<and> new_anno = [] \<longrightarrow>
            parseUploadedFiles parser s = (Returned (), s, []))"
proof -
  have d: "not_yet_parsed s deconv_files ''deconv_dfs'' = Returned new_deconv"
    using assms(3,5) by (cases deconv_files) (simp_all add: not_yet_parsed_def)
  have a: "not_yet_parsed s anno_files ''anno_dfs'' = Returned new_anno"
    using assms(4,6) by (cases anno_files) (simp_all add: not_yet_parsed_def)
  show ?thesis
    using assms(1,2) d a by (auto simp: parseUploadedFiles_def)
qed

theorem parseUploadedFiles_pairing_mismatch_witness:
  "parseUploadedFiles example_parser two_deconv_one_anno =
     (Returned (), two_deconv_one_anno,
      [Error pairing_error_message, Markdown ''- a_deconv.mzML'', Markdown ''- b_deconv.mzML'',
       Markdown ''- a_annotated.mzML''])
   \<and> df_caches two_deconv_one_anno ''deconv_dfs'' = Some []
   \<and> df_caches two_deconv_one_anno ''anno_dfs'' = Some []"
  using parseUploadedFiles_pairing_mismatch
    [of two_deconv_one_anno "[''a_deconv.mzML'', ''b_deconv.mzML'']" "[''a_annotated.mzML'']"
        "[]" "[]" "[''a_deconv.mzML'', ''b_deconv.mzML'']" "[''a_annotated.mzML'']" example_parser]
  by (simp add: two_deconv_one_anno_eq)

subsection \<open>Files that are neither deconvolved nor annotated\<close>

text \<open>
  Claim C9.  The claim is that an uploaded file whose name carries neither suffix is
  skipped silently.  A name that does not end in \<open>mzML\<close> is skipped, but for a name that
  ends in \<open>mzML\<close> without either suffix the session is subscripted with the empty key:
  on a freshly initialised session the upload of \<open>sample.mzML\<close> raises \<open>KeyError\<close>, and
  the file after it in the same upload is not ingested.
\<close>

theorem handleInputFiles_unclassified_mzML_raises:
  "handleInputFiles [(''sample.mzML'', content), (''exp1_deconv.mzML'', content')]
     (initializeWorkspace input_file_types parsed_df_types new_session)
   = (Raised (KeyError ''''), initializeWorkspace input_file_types parsed_df_types new_session)"
  by (simp add: initializeWorkspace_new_session endswith_def)

section \<open>Properties of the pairing cycle\<close>

subsection \<open>The experiment name\<close>




subsection \<open>The loop over the pairs\<close>

lemma parsed_pairs_Cons:
  "parsed_pairs ((a, d) # pairs) =
     (if endswith a ''.mzML'' then (a, d) # parsed_pairs pairs else parsed_pairs pairs)"
  by (simp add: parsed_pairs_def)

lemma parse_pairs_accepted:
  assumes "df_caches s ''anno_dfs'' = Some anno_dfs"
    and "df_caches s ''deconv_dfs'' = Some deconv_dfs"
    and "\<forall>(a, d) \<in> set (parsed_pairs pairs).
           parser (workspace s) (''anno-mzMLs'', a) (''deconv-mzMLs'', d) \<noteq> None"
  shows "\<exists>s' anno_dfs' deconv_dfs'.
     parse_pairs parser pairs s =
       (Returned (), s', concat (map parsed_pair_effects (parsed_pairs pairs))) \<and>
     workspace s' = workspace s \<and> name_lists s' = name_lists s \<and>
     experiment_df s' = experiment_df s \<and> progress_bar_space s' = progress_bar_space s \<and>
     df_caches s' ''anno_dfs'' = Some anno_dfs' \<and>
     df_caches s' ''deconv_dfs'' = Some deconv_dfs' \<and>
     (\<forall>k. k \<noteq> ''anno_dfs'' \<and> k \<noteq> ''deconv_dfs'' \<longrightarrow> df_caches s' k = df_caches s k) \<and>
     fst ` set anno_dfs' = fst ` set anno_dfs \<union> fst ` set (parsed_pairs pairs) \<and>
     fst ` set deconv_dfs' = fst ` set deconv_dfs \<union> snd ` set (parsed_pairs pairs)"
  using assms
proof (induction pairs arbitrary: s anno_dfs deconv_dfs)
  case Nil
  then show ?case by (simp add: parsed_pairs_def)
next
  case (Cons p pairs)
  obtain a d where p: "p = (a, d)" by (cases p)
  show ?case
  proof (cases "endswith a ''.mzML''")
    case False
    then have pp: "parsed_pairs (p # pairs) = parsed_pairs pairs"
      by (simp add: p parsed_pairs_Cons)
    have run: "parse_pairs parser (p # pairs) s = parse_pairs parser pairs s"
      using False by (simp add: p)
    from Cons.prems(3) have c3: "\<forall>(a, d) \<in> set (parsed_pairs pairs).
           parser (workspace s) (''anno-mzMLs'', a) (''deconv-mzMLs'', d) \<noteq> None"
      unfolding pp .
    show ?thesis unfolding pp run by (rule Cons.IH[OF Cons.prems(1,2) c3])
  next
    case True
    then have pp: "parsed_pairs (p # pairs) = (a, d) # parsed_pairs pairs"
      by (simp add: p parsed_pairs_Cons)
    from Cons.prems(3) have "parser (workspace s) (''anno-mzMLs'', a) (''deconv-mzMLs'', d) \<noteq> None"
      unfolding pp by simp
    then obtain spec_df anno_df tolerance massoffset chargemass where
      ok: "parser (workspace s) (''anno-mzMLs'', a) (''deconv-mzMLs'', d)
             = Some (spec_df, anno_df, tolerance, massoffset, chargemass)"
      by (cases "parser (workspace s) (''anno-mzMLs'', a) (''deconv-mzMLs'', d)") auto
    define s2 where "s2 = s\<lparr>df_caches := (df_caches s)(''anno_dfs'' \<mapsto> AList.update a anno_df anno_dfs,
                  ''deconv_dfs'' \<mapsto> AList.update d spec_df deconv_dfs)\<rparr>"
    have c1: "df_caches s2 ''anno_dfs'' = Some (AList.update a anno_df anno_dfs)"
      and c2: "df_caches s2 ''deconv_dfs'' = Some (AList.update d spec_df deconv_dfs)"
      and w2: "workspace s2 = workspace s" and n2: "name_lists s2 = name_lists s"
      and e2: "experiment_df s2 = experiment_df s"
      and b2: "progress_bar_space s2 = progress_bar_space s"
      and o2: "\<And>k. k \<noteq> ''anno_dfs'' \<and> k \<noteq> ''deconv_dfs'' \<Longrightarrow> df_caches s2 k = df_caches s k"
      by (simp_all add: s2_def)
    have c3: "\<forall>(a, d) \<in> set (parsed_pairs pairs).
           parser (workspace s2) (''anno-mzMLs'', a) (''deconv-mzMLs'', d) \<noteq> None"
      using Cons.prems(3) unfolding pp w2 by simp
    from Cons.IH[OF c1 c2 c3]
    obtain s' anno_dfs' deconv_dfs' where ih:
      "parse_pairs parser pairs s2 =
         (Returned (), s', concat (map parsed_pair_effects (parsed_pairs pairs))) \<and>
       workspace s' = workspace s2 \<and> name_lists s' = name_lists s2 \<and>
       experiment_df s' = experiment_df s2 \<and> progress_bar_space s' = progress_bar_space s2 \<and>
       df_caches s' ''anno_dfs'' = Some anno_dfs' \<and>
       df_caches s' ''deconv_dfs'' = Some deconv_dfs' \<and>
       (\<forall>k. k \<noteq> ''anno_dfs'' \<and> k \<noteq> ''deconv_dfs'' \<longrightarrow> df_caches s' k = df_caches s2 k) \<and>
       fst ` set anno_dfs' =
         fst ` set (AList.update a anno_df anno_dfs) \<union> fst ` set (parsed_pairs pairs) \<and>
       fst ` set deconv_dfs' =
         fst ` set (AList.update d spec_df deconv_dfs) \<union> snd ` set (parsed_pairs pairs)"
      by (elim exE) (rule that)
    then have ih1: "parse_pairs parser pairs s2 =
         (Returned (), s', concat (map parsed_pair_effects (parsed_pairs pairs)))"
      and ih2: "workspace s' = workspace s2" "name_lists s' = name_lists s2"
        "experiment_df s' = experiment_df s2" "progress_bar_space s' = progress_bar_space s2"
      and ih6: "df_caches s' ''anno_dfs'' = Some anno_dfs'"
        "df_caches s' ''deconv_dfs'' = Some deconv_dfs'"
      and ih8: "\<forall>k. k \<noteq> ''anno_dfs'' \<and> k \<noteq> ''deconv_dfs'' \<longrightarrow> df_caches s' k = df_caches s2 k"
      and ih9: "fst ` set anno_dfs' =
         fst ` set (AList.update a anno_df anno_dfs) \<union> fst ` set (parsed_pairs pairs)"
      and ih10: "fst ` set deconv_dfs' =
         fst ` set (AList.update d spec_df deconv_dfs) \<union> snd ` set (parsed_pairs pairs)"
      by simp_all
    have step: "parse_pairs parser (p # pairs) s =
       (case parse_pairs parser pairs s2 of
          (r, s3, effects) \<Rightarrow> (r, s3, parsed_pair_effects (a, d) @ effects))"
      using True ok Cons.prems(1,2)
      by (simp add: p s2_def Let_def parsed_pair_effects_def)
    have run: "parse_pairs parser (p # pairs) s =
       (Returned (), s', concat (map parsed_pair_effects (parsed_pairs (p # pairs))))"
      unfolding step ih1 pp by simp
    have k1: "fst ` set anno_dfs' = fst ` set anno_dfs \<union> fst ` set (parsed_pairs (p # pairs))"
      unfolding ih9 pp by (simp add: dom_update)
    have k2: "fst ` set deconv_dfs' = fst ` set deconv_dfs \<union> snd ` set (parsed_pairs (p # pairs))"
      unfolding ih10 pp by (simp add: dom_update)
    have c: "\<forall>k. k \<noteq> ''anno_dfs'' \<and> k \<noteq> ''deconv_dfs'' \<longrightarrow> df_caches s' k = df_caches s k"
      using ih8 o2 by simp
    have fr: "workspace s' = workspace s" "name_lists s' = name_lists s"
      "experiment_df s' = experiment_df s" "progress_bar_space s' = progress_bar_space s"
      using ih2 w2 n2 e2 b2 by simp_all
    from run fr ih6 c k1 k2 show ?thesis
      apply -
      apply (rule exI[of _ s'], rule exI[of _ anno_dfs'], rule exI[of _ deconv_dfs'])
      apply (intro conjI; assumption)
      done
  qed
qed

lemma parse_pairs_append:
  "parse_pairs parser (xs @ ys) s =
    (case parse_pairs parser xs s of
       (Raised e, s1, effects1) \<Rightarrow> (Raised e, s1, effects1)
     | (Returned u, s1, effects1) \<Rightarrow>
         (case parse_pairs parser ys s1 of
            (r, s2, effects2) \<Rightarrow> (r, s2, effects1 @ effects2)))"
proof (induction xs arbitrary: s)
  case Nil
  then show ?case by (simp split: prod.splits)
next
  case (Cons p xs)
  obtain a d where p: "p = (a, d)" by (cases p)
  show ?case
  proof (cases "endswith a ''.mzML''")
    case False
    then show ?thesis by (simp add: p Cons.IH)
  next
    case True
    show ?thesis
    proof (cases "parser (workspace s) (''anno-mzMLs'', a) (''deconv-mzMLs'', d)")
      case None
      with True show ?thesis by (simp add: p Let_def)
    next
      case (Some res)
      obtain spec_df anno_df tolerance massoffset chargemass where
        res: "res = (spec_df, anno_df, tolerance, massoffset, chargemass)"
        by (cases res) auto
      show ?thesis
      proof (cases "df_caches s ''anno_dfs''")
        case None
        with True Some res show ?thesis by (simp add: p Let_def)
      next
        case ac: (Some anno_dfs)
        show ?thesis
        proof (cases "df_caches s ''deconv_dfs''")
          case None
          with True Some res ac show ?thesis by (simp add: p Let_def)
        next
          case dc: (Some deconv_dfs)
          define s2 where "s2 = s\<lparr>df_caches := (df_caches s)(''anno_dfs'' \<mapsto> AList.update a anno_df anno_dfs,
                  ''deconv_dfs'' \<mapsto> AList.update d spec_df deconv_dfs)\<rparr>"
          have step: "\<And>zs. parse_pairs parser (p # zs) s =
             (case parse_pairs parser zs s2 of
                (r, s3, effects) \<Rightarrow> (r, s3, parsed_pair_effects (a, d) @ effects))"
            using True Some res ac dc
            by (simp add: p s2_def Let_def parsed_pair_effects_def)
          obtain r s3 effects where rec: "parse_pairs parser xs s2 = (r, s3, effects)"
            by (cases "parse_pairs parser xs s2") auto
          have "parse_pairs parser ((p # xs) @ ys) s =
             (case parse_pairs parser (xs @ ys) s2 of
                (r, s3, effects) \<Rightarrow> (r, s3, parsed_pair_effects (a, d) @ effects))"
            using step[of "xs @ ys"] by simp
          then show ?thesis
            unfolding step[of xs] Cons.IH[of s2] rec
            by (cases r) (simp_all split: prod.splits)
        qed
      qed
    qed
  qed
qed

lemma parse_pairs_rejected:
  assumes "endswith anno_f ''.mzML''"
    and "parser (workspace s) (''anno-mzMLs'', anno_f) (''deconv-mzMLs'', deconv_f) = None"
  shows "parse_pairs parser ((anno_f, deconv_f) # later) s =
     (Raised ParserError, s,
      [Spinner (''Parsing the experiment '' @ experiment_name anno_f @ ''...''),
       Parse (''anno-mzMLs'', anno_f) (''deconv-mzMLs'', deconv_f)])"
  using assms by (simp add: Let_def)

lemma two_pairs_uploaded_eq:
  "two_pairs_uploaded =
  \<lparr>workspace = [''deconv-mzMLs'' \<mapsto> [(''b_deconv.mzML'', ''1''), (''a_deconv.mzML'', ''2'')],
                 ''anno-mzMLs'' \<mapsto> [(''a_annotated.mzML'', ''3''), (''b_annotated.mzML'', ''4'')]],
   name_lists = [''deconv-mzMLs'' \<mapsto> [''b_deconv.mzML'', ''a_deconv.mzML''],
                 ''anno-mzMLs'' \<mapsto> [''a_annotated.mzML'', ''b_annotated.mzML'']],
   df_caches = [''deconv_dfs'' \<mapsto> [], ''anno_dfs'' \<mapsto> []],
   experiment_df = None, progress_bar_space = True\<rparr>"
  by (simp add: two_pairs_uploaded_def initializeWorkspace_new_session endswith_def Let_def
        fun_upd_twist)

lemma parseUploadedFiles_pairs:
  assumes "name_lists s ''deconv-mzMLs'' = Some deconv_files"
    and "name_lists s ''anno-mzMLs'' = Some anno_files"
    and "df_caches s ''deconv_dfs'' = Some deconv_dfs"
    and "df_caches s ''anno_dfs'' = Some anno_dfs"
    and "new_deconv = filter (\<lambda>f. f \<notin> fst ` set deconv_dfs) deconv_files"
    and "new_anno = filter (\<lambda>f. f \<notin> fst ` set anno_dfs) anno_files"
    and "length new_deconv = length new_anno"
    and "progress_bar_space s"
  shows "parseUploadedFiles parser s =
           parse_pairs parser (zip (sort new_anno) (sort new_deconv)) s"
proof -
  have d: "not_yet_parsed s deconv_files ''deconv_dfs'' = Returned new_deconv"
    using assms(3,5) by (cases deconv_files) (simp_all add: not_yet_parsed_def)
  have a: "not_yet_parsed s anno_files ''anno_dfs'' = Returned new_anno"
    using assms(4,6) by (cases anno_files) (simp_all add: not_yet_parsed_def)
  show ?thesis
  proof (cases "new_anno = []")
    case True
    with assms(7) have "new_deconv = []" by simp
    with True assms(1,2) d a show ?thesis by (simp add: parseUploadedFiles_def)
  next
    case False
    with assms(1,2,7,8) d a show ?thesis by (simp add: parseUploadedFiles_def)
  qed
qed


text \<open>
  Claim C3.  When the parser raises on a pair of the cycle, \<open>parseUploadedFiles\<close>
  raises the same failure and nothing of the later pairs is parsed or shown; the two
  caches are as the earlier pairs of the cycle left them (their keys are the keys from
  before the cycle and the names of the earlier pairs), so neither cache has gained an
  entry for the failing pair.
\<close>

theorem parse_failure_all_or_nothing:
  assumes "name_lists s ''deconv-mzMLs'' = Some deconv_files"
    and "name_lists s ''anno-mzMLs'' = Some anno_files"
    and "df_caches s ''deconv_dfs'' = Some deconv_dfs"
    and "df_caches s ''anno_dfs'' = Some anno_dfs"
    and "new_deconv = filter (\<lambda>f. f \<notin> fst ` set deconv_dfs) deconv_files"
    and "new_anno = filter (\<lambda>f. f \<notin> fst ` set anno_dfs) anno_files"
    and "length new_deconv = length new_anno"
    and "progress_bar_space s"
    and "zip (sort new_anno) (sort new_deconv) = earlier @ (anno_f, deconv_f) # later"
    and "\<forall>(a, d) \<in> set (parsed_pairs earlier).
           parser (workspace s) (''anno-mzMLs'', a) (''deconv-mzMLs'', d) \<noteq> None"
    and "endswith anno_f ''.mzML''"
    and "parser (workspace s) (''anno-mzMLs'', anno_f) (''deconv-mzMLs'', deconv_f) = None"
  shows "\<exists>s' anno_dfs' deconv_dfs'.
     parseUploadedFiles parser s =
       (Raised ParserError, s',
        concat (map parsed_pair_effects (parsed_pairs earlier)) @
        [Spinner (''Parsing the experiment '' @ experiment_name anno_f @ ''...''),
         Parse (''anno-mzMLs'', anno_f) (''deconv-mzMLs'', deconv_f)]) \<and>
     df_caches s' ''anno_dfs'' = Some anno_dfs' \<and>
     df_caches s' ''deconv_dfs'' = Some deconv_dfs' \<and>
     fst ` set anno_dfs' = fst ` set anno_dfs \<union> fst ` set (parsed_pairs earlier) \<and>
     fst ` set deconv_dfs' = fst ` set deconv_dfs \<union> snd ` set (parsed_pairs earlier) \<and>
     (distinct anno_files \<longrightarrow> anno_f \<notin> fst ` set anno_dfs') \<and>
     (distinct deconv_files \<longrightarrow> deconv_f \<notin> fst ` set deconv_dfs') \<and>
     workspace s' = workspace s \<and> name_lists s' = name_lists s \<and>
     experiment_df s' = experiment_df s"
proof -
  from parse_pairs_accepted[where parser=parser and s=s and pairs=earlier, OF assms(4,3,10)]
  obtain s' anno_dfs' deconv_dfs' where acc:
    "parse_pairs parser earlier s =
       (Returned (), s', concat (map parsed_pair_effects (parsed_pairs earlier))) \<and>
     workspace s' = workspace s \<and> name_lists s' = name_lists s \<and>
     experiment_df s' = experiment_df s \<and> progress_bar_space s' = progress_bar_space s \<and>
     df_caches s' ''anno_dfs'' = Some anno_dfs' \<and>
     df_caches s' ''deconv_dfs'' = Some deconv_dfs' \<and>
     (\<forall>k. k \<noteq> ''anno_dfs'' \<and> k \<noteq> ''deconv_dfs'' \<longrightarrow> df_caches s' k = df_caches s k) \<and>
     fst ` set anno_dfs' = fst ` set anno_dfs \<union> fst ` set (parsed_pairs earlier) \<and>
     fst ` set deconv_dfs' = fst ` set deconv_dfs \<union> snd ` set (parsed_pairs earlier)"
    by (elim exE) (rule that)
  then have run1: "parse_pairs parser earlier s =
       (Returned (), s', concat (map parsed_pair_effects (parsed_pairs earlier)))"
    and w: "workspace s' = workspace s" and n: "name_lists s' = name_lists s"
    and e: "experiment_df s' = experiment_df s"
    and c1: "df_caches s' ''anno_dfs'' = Some anno_dfs'"
    and c2: "df_caches s' ''deconv_dfs'' = Some deconv_dfs'"
    and k1: "fst ` set anno_dfs' = fst ` set anno_dfs \<union> fst ` set (parsed_pairs earlier)"
    and k2: "fst ` set deconv_dfs' = fst ` set deconv_dfs \<union> snd ` set (parsed_pairs earlier)"
    by simp_all
  have rej: "parse_pairs parser ((anno_f, deconv_f) # later) s' =
     (Raised ParserError, s',
      [Spinner (''Parsing the experiment '' @ experiment_name anno_f @ ''...''),
       Parse (''anno-mzMLs'', anno_f) (''deconv-mzMLs'', deconv_f)])"
    using assms(11,12) w by (intro parse_pairs_rejected) simp_all
  have run: "parseUploadedFiles parser s =
       (Raised ParserError, s',
        concat (map parsed_pair_effects (parsed_pairs earlier)) @
        [Spinner (''Parsing the experiment '' @ experiment_name anno_f @ ''...''),
         Parse (''anno-mzMLs'', anno_f) (''deconv-mzMLs'', deconv_f)])"
    unfolding parseUploadedFiles_pairs[OF assms(1-8)] assms(9) parse_pairs_append run1
    using rej by simp
  have annos: "sort new_anno = map fst earlier @ anno_f # map fst later"
  proof -
    have "map fst (zip (sort new_anno) (sort new_deconv)) = sort new_anno"
      using assms(7) by (simp add: map_fst_zip)
    then show ?thesis unfolding assms(9) by simp
  qed
  have deconvs: "sort new_deconv = map snd earlier @ deconv_f # map snd later"
  proof -
    have "map snd (zip (sort new_anno) (sort new_deconv)) = sort new_deconv"
      using assms(7) by (simp add: map_snd_zip)
    then show ?thesis unfolding assms(9) by simp
  qed
  have fresh_anno: "distinct anno_files \<longrightarrow> anno_f \<notin> fst ` set anno_dfs'"
  proof
    assume "distinct anno_files"
    then have "distinct (sort new_anno)" by (simp add: assms(6))
    then have 1: "anno_f \<notin> set (map fst earlier)" unfolding annos by simp
    have "set (parsed_pairs earlier) \<subseteq> set earlier" by (auto simp: parsed_pairs_def)
    with 1 have 2: "anno_f \<notin> fst ` set (parsed_pairs earlier)" by auto
    have "anno_f \<in> set (sort new_anno)" unfolding annos by simp
    then have "anno_f \<in> set new_anno" by simp
    then have "anno_f \<notin> fst ` set anno_dfs" unfolding assms(6) by simp
    with 2 show "anno_f \<notin> fst ` set anno_dfs'" unfolding k1 by simp
  qed
  have fresh_deconv: "distinct deconv_files \<longrightarrow> deconv_f \<notin> fst ` set deconv_dfs'"
  proof
    assume "distinct deconv_files"
    then have "distinct (sort new_deconv)" by (simp add: assms(5))
    then have 1: "deconv_f \<notin> set (map snd earlier)" unfolding deconvs by simp
    have "set (parsed_pairs earlier) \<subseteq> set earlier" by (auto simp: parsed_pairs_def)
    with 1 have 2: "deconv_f \<notin> snd ` set (parsed_pairs earlier)" by auto
    have "deconv_f \<in> set (sort new_deconv)" unfolding deconvs by simp
    then have "deconv_f \<in> set new_deconv" by simp
    then have "deconv_f \<notin> fst ` set deconv_dfs" unfolding assms(5) by simp
    with 2 show "deconv_f \<notin> fst ` set deconv_dfs'" unfolding k2 by simp
  qed
  from run c1 c2 k1 k2 fresh_anno fresh_deconv w n e show ?thesis
    apply -
    apply (rule exI[of _ s'], rule exI[of _ anno_dfs'], rule exI[of _ deconv_dfs'])
    apply (intro conjI; assumption)
    done
qed

theorem parse_failure_all_or_nothing_witness:
  "fst (parseUploadedFiles rejecting_b_parser two_pairs_uploaded) = Raised ParserError \<and>
   df_caches (fst (snd (parseUploadedFiles rejecting_b_parser two_pairs_uploaded))) ''anno_dfs''
     = Some [(''a_annotated.mzML'', ''anno of a_annotated.mzML'')] \<and>
   df_caches (fst (snd (parseUploadedFiles rejecting_b_parser two_pairs_uploaded))) ''deconv_dfs''
     = Some [(''a_deconv.mzML'', ''spec of a_deconv.mzML'')] \<and>
   snd (snd (parseUploadedFiles rejecting_b_parser two_pairs_uploaded)) =
     [Spinner ''Parsing the experiment a...'',
      Parse (''anno-mzMLs'', ''a_annotated.mzML'') (''deconv-mzMLs'', ''a_deconv.mzML''),
      Success ''Done parsing the experiment a!'',
      Spinner ''Parsing the experiment b...'',
      Parse (''anno-mzMLs'', ''b_annotated.mzML'') (''deconv-mzMLs'', ''b_deconv.mzML'')]"
  using parse_failure_all_or_nothing
    [of two_pairs_uploaded "[''b_deconv.mzML'', ''a_deconv.mzML'']"
        "[''a_annotated.mzML'', ''b_annotated.mzML'']" "[]" "[]"
        "[''b_deconv.mzML'', ''a_deconv.mzML'']" "[''a_annotated.mzML'', ''b_annotated.mzML'']"
        "[(''a_annotated.mzML'', ''a_deconv.mzML'')]" "''b_annotated.mzML''" "''b_deconv.mzML''"
        "[]" rejecting_b_parser]
  by (simp add: two_pairs_uploaded_eq parsed_pairs_def endswith_def rejecting_b_parser_def
        example_parser_def parseUploadedFiles_def not_yet_parsed_def experiment_name_def
        slice_to_def Let_def)



subsection \<open>Uploading a known file again\<close>

lemma endswith_rev_take:
  "endswith s suffix \<Longrightarrow> k \<le> length suffix \<Longrightarrow> take k (rev s) = take k (rev suffix)"
proof -
  assume e: "endswith s suffix" and k: "k \<le> length suffix"
  from e have "s = take (length s - length suffix) s @ suffix"
    by (metis append_take_drop_id endswith_def)
  then have "rev s = rev suffix @ rev (take (length s - length suffix) s)"
    by (metis rev_append)
  then show ?thesis using k by simp
qed

lemma annotated_not_deconv:
  "endswith file_name ''_annotated.mzML'' \<Longrightarrow> \<not> endswith file_name ''_deconv.mzML''"
proof
  assume "endswith file_name ''_annotated.mzML''" and "endswith file_name ''_deconv.mzML''"
  from endswith_rev_take[OF this(1), of 6] endswith_rev_take[OF this(2), of 6]
  show False by simp
qed

lemma suffix_ends_mzML:
  "endswith file_name ''_annotated.mzML'' \<or> endswith file_name ''_deconv.mzML''
     \<Longrightarrow> endswith file_name ''mzML''"
proof -
  assume a: "endswith file_name ''_annotated.mzML'' \<or> endswith file_name ''_deconv.mzML''"
  have "take 4 (rev file_name) = ''LMzm''"
    using a endswith_rev_take[of file_name "''_annotated.mzML''" 4]
      endswith_rev_take[of file_name "''_deconv.mzML''" 4] by auto
  moreover from a have l: "4 \<le> length file_name" by (auto simp: endswith_def)
  ultimately have "rev (take 4 (rev file_name)) = ''mzML''" by simp
  then have d: "drop (length file_name - 4) file_name = ''mzML''"
    by (simp add: rev_take)
  have len: "length ''mzML'' = 4" by simp
  show ?thesis unfolding endswith_def len using l d by blast
qed

lemma handleInputFiles_names_distinct:
  "names_distinct s \<Longrightarrow> names_distinct (snd (handleInputFiles uploaded_files s))"
proof (induction uploaded_files s rule: handleInputFiles.induct)
  case (1 s)
  then show ?case by simp
next
  case (2 file_name buffer rest s)
  let ?session_name = "if endswith file_name ''_deconv.mzML'' then ''deconv-mzMLs''
               else if endswith file_name ''_annotated.mzML'' then ''anno-mzMLs''
               else ''''"
  show ?case
  proof (cases "endswith file_name ''mzML''")
    case False
    with 2 show ?thesis by simp
  next
    case m: True
    show ?thesis
    proof (cases "name_lists s ?session_name")
      case None
      with m "2.prems" show ?thesis by (simp add: Let_def)
    next
      case (Some known)
      show ?thesis
      proof (cases "file_name \<in> set known")
        case True
        with m Some 2 show ?thesis by (simp add: Let_def)
      next
        case new: False
        show ?thesis
        proof (cases "workspace s ?session_name")
          case None
          with m Some new "2.prems" show ?thesis by (simp add: Let_def)
        next
          case (Some entries)
          let ?s' = "s\<lparr>workspace :=
                             (workspace s)(?session_name \<mapsto> AList.update file_name buffer entries),
                           name_lists :=
                             (name_lists s)(?session_name \<mapsto> known @ [file_name])\<rparr>"
          from "2.prems" \<open>name_lists s ?session_name = Some known\<close> have "distinct known"
            unfolding names_distinct_def by blast
          with new have "distinct (known @ [file_name])" by simp
          with "2.prems" have "names_distinct ?s'"
            unfolding names_distinct_def by auto
          from "2.IH"(2)[OF _ refl \<open>name_lists s ?session_name = Some known\<close> _ Some this] m new
          have "names_distinct (snd (handleInputFiles rest ?s'))" by simp
          with m Some new \<open>name_lists s ?session_name = Some known\<close> show ?thesis
            by (simp add: Let_def)
        qed
      qed
    qed
  qed
qed

lemma upload_calls_names_distinct:
  "names_distinct s \<Longrightarrow>
   names_distinct (fold (\<lambda>uploaded_files s. snd (handleInputFiles uploaded_files s)) calls s)"
  by (induction calls arbitrary: s) (simp_all add: handleInputFiles_names_distinct)

text \<open>
  Claim C5.  Ingesting a file whose name is already registered in its bucket changes
  nothing: the directory entry is not written again and the name is not appended
  again (the file contributes nothing to the upload it is part of, and an upload of it
  alone returns the session as it was).  Hence, from a session whose lists of known
  names are free of duplicates, any sequence of upload calls leads to a session whose
  lists are free of duplicates.
\<close>

theorem handleInputFiles_idempotent:
  "(names_distinct s \<longrightarrow>
      names_distinct
        (fold (\<lambda>uploaded_files s. snd (handleInputFiles uploaded_files s)) calls s)) \<and>
   (endswith file_name ''_deconv.mzML'' \<and>
    name_lists s ''deconv-mzMLs'' = Some known \<and> file_name \<in> set known \<longrightarrow>
      handleInputFiles ((file_name, buffer) # rest) s = handleInputFiles rest s \<and>
      handleInputFiles [(file_name, buffer)] s = (Returned (), s)) \<and>
   (endswith file_name ''_annotated.mzML'' \<and>
    name_lists s ''anno-mzMLs'' = Some known \<and> file_name \<in> set known \<longrightarrow>
      handleInputFiles ((file_name, buffer) # rest) s = handleInputFiles rest s \<and>
      handleInputFiles [(file_name, buffer)] s = (Returned (), s))"
proof (intro conjI impI)
  assume "names_distinct s"
  then show "names_distinct
        (fold (\<lambda>uploaded_files s. snd (handleInputFiles uploaded_files s)) calls s)"
    by (rule upload_calls_names_distinct)
next
  assume a: "endswith file_name ''_deconv.mzML'' \<and>
    name_lists s ''deconv-mzMLs'' = Some known \<and> file_name \<in> set known"
  then have "endswith file_name ''mzML''" using suffix_ends_mzML by blast
  with a show "handleInputFiles ((file_name, buffer) # rest) s = handleInputFiles rest s"
    by simp
  from a \<open>endswith file_name ''mzML''\<close>
  show "handleInputFiles [(file_name, buffer)] s = (Returned (), s)" by simp
next
  assume a: "endswith file_name ''_annotated.mzML'' \<and>
    name_lists s ''anno-mzMLs'' = Some known \<and> file_name \<in> set known"
  then have m: "endswith file_name ''mzML''" using suffix_ends_mzML by blast
  from a have n: "\<not> endswith file_name ''_deconv.mzML''" using annotated_not_deconv by blast
  from a m n show "handleInputFiles ((file_name, buffer) # rest) s = handleInputFiles rest s"
    by simp
  from a m n show "handleInputFiles [(file_name, buffer)] s = (Returned (), s)" by simp
qed

theorem handleInputFiles_idempotent_witness:
  "names_distinct two_deconv_one_anno \<and>
   names_distinct
     (fold (\<lambda>uploaded_files s. snd (handleInputFiles uploaded_files s))
        [[(''a_deconv.mzML'', ''other'')], [(''c_annotated.mzML'', ''4''), (''a_annotated.mzML'', ''5'')]]
        two_deconv_one_anno) \<and>
   handleInputFiles [(''a_deconv.mzML'', ''other'')] two_deconv_one_anno
     = (Returned (), two_deconv_one_anno) \<and>
   handleInputFiles [(''a_annotated.mzML'', ''other'')] two_deconv_one_anno
     = (Returned (), two_deconv_one_anno)"
proof -
  have d: "names_distinct two_deconv_one_anno"
    by (simp add: names_distinct_def two_deconv_one_anno_eq)
  have e1: "endswith ''a_deconv.mzML'' ''_deconv.mzML''"
    and e2: "endswith ''a_annotated.mzML'' ''_annotated.mzML''"
    by (simp_all add: endswith_def)
  have n1: "name_lists two_deconv_one_anno ''deconv-mzMLs'' = Some [''a_deconv.mzML'', ''b_deconv.mzML'']"
    and n2: "name_lists two_deconv_one_anno ''anno-mzMLs'' = Some [''a_annotated.mzML'']"
    by (simp_all add: two_deconv_one_anno_eq)
  from handleInputFiles_idempotent
    [of two_deconv_one_anno
        "[[(''a_deconv.mzML'', ''other'')], [(''c_annotated.mzML'', ''4''), (''a_annotated.mzML'', ''5'')]]"
        "''a_deconv.mzML''" "[''a_deconv.mzML'', ''b_deconv.mzML'']" "''other''" "[]"]
    d e1 n1
  have p1: "names_distinct
     (fold (\<lambda>uploaded_files s. snd (handleInputFiles uploaded_files s))
        [[(''a_deconv.mzML'', ''other'')], [(''c_annotated.mzML'', ''4''), (''a_annotated.mzML'', ''5'')]]
        two_deconv_one_anno)"
    and p2: "handleInputFiles [(''a_deconv.mzML'', ''other'')] two_deconv_one_anno
     = (Returned (), two_deconv_one_anno)"
    by simp_all
  from handleInputFiles_idempotent
    [of two_deconv_one_anno "[]" "''a_annotated.mzML''" "[''a_annotated.mzML'']" "''other''" "[]"]
    e2 n2
  have p3: "handleInputFiles [(''a_annotated.mzML'', ''other'')] two_deconv_one_anno
     = (Returned (), two_deconv_one_anno)"
    by simp
  from d p1 p2 p3 show ?thesis by blast
qed

subsection \<open>Removing everything\<close>

lemma initialize_empty:
  assumes "workspace s ''deconv-mzMLs'' = Some []" "workspace s ''anno-mzMLs'' = Some []"
    "name_lists s ''deconv-mzMLs'' = Some []" "name_lists s ''anno-mzMLs'' = Some []"
    "df_caches s ''deconv_dfs'' = Some []" "df_caches s ''anno_dfs'' = Some []"
  shows "initializeWorkspace input_file_types parsed_df_types s = s"
proof -
  have "(workspace s)(''deconv-mzMLs'' \<mapsto> [], ''anno-mzMLs'' \<mapsto> []) = workspace s"
    using assms(1,2) by (auto simp: fun_eq_iff)
  moreover have "(name_lists s)(''deconv-mzMLs'' \<mapsto> [], ''anno-mzMLs'' \<mapsto> []) = name_lists s"
    using assms(3,4) by (auto simp: fun_eq_iff)
  ultimately show ?thesis
    using assms
    by (simp add: initializeWorkspace_def input_file_types_def parsed_df_types_def)
qed

text \<open>
  Claim C7.  After the remove-all branch has run on a session that holds the two name
  lists, the two caches and a data frame, both directories exist and are empty, both
  name lists and both caches are empty and the data frame is gone; a cycle of
  \<open>postprocessingAfterUpload_FD\<close> on that session changes nothing and shows only the
  information that nothing has been added, no error.
\<close>

theorem remove_all_then_nothing_uploaded:
  assumes "name_lists s ''deconv-mzMLs'' \<noteq> None" and "name_lists s ''anno-mzMLs'' \<noteq> None"
    and "df_caches s ''deconv_dfs'' \<noteq> None" and "df_caches s ''anno_dfs'' \<noteq> None"
    and "experiment_df s \<noteq> None"
  shows "\<exists>s'. remove_all s = (Returned (), s', [Success ''All mzML files removed!'']) \<and>
           workspace s' ''deconv-mzMLs'' = Some [] \<and> workspace s' ''anno-mzMLs'' = Some [] \<and>
           name_lists s' ''deconv-mzMLs'' = Some [] \<and> name_lists s' ''anno-mzMLs'' = Some [] \<and>
           df_caches s' ''deconv_dfs'' = Some [] \<and> df_caches s' ''anno_dfs'' = Some [] \<and>
           experiment_df s' = None \<and>
           postprocessingAfterUpload_FD parser s' = (Returned (), s', [Info ''No mzML added yet!''])"
proof -
  let ?s1 = "remove_all_loop (zip input_file_types parsed_df_types) s"
  let ?s' = "?s1\<lparr>experiment_df := None\<rparr>"
  have t: "experiment_df ?s1 = experiment_df s"
    by (simp add: input_file_types_def parsed_df_types_def Let_def)
  have r: "remove_all s = (Returned (), ?s', [Success ''All mzML files removed!''])"
    using assms(5) t by (auto simp: remove_all_def Let_def)
  have w: "workspace ?s' ''deconv-mzMLs'' = Some []" "workspace ?s' ''anno-mzMLs'' = Some []"
    using assms(1,2)
    by (auto simp: input_file_types_def parsed_df_types_def Let_def reset_directory_def)
  have n: "name_lists ?s' ''deconv-mzMLs'' = Some []" "name_lists ?s' ''anno-mzMLs'' = Some []"
    using assms(1,2)
    by (auto simp: input_file_types_def parsed_df_types_def Let_def)
  have c: "df_caches ?s' ''deconv_dfs'' = Some []" "df_caches ?s' ''anno_dfs'' = Some []"
    using assms(3,4)
    by (auto simp: input_file_types_def parsed_df_types_def Let_def)
  have e: "experiment_df ?s' = None" by simp
  have i: "initializeWorkspace input_file_types parsed_df_types ?s' = ?s'"
    using w n c by (rule initialize_empty)
  have p: "parseUploadedFiles parser ?s' = (Returned (), ?s', [])"
    using n by (simp add: parseUploadedFiles_def not_yet_parsed_def)
  have d: "showUploadedFilesTable ?s' = (Returned False, ?s', [Info ''No mzML added yet!''])"
    using c by (simp add: showUploadedFilesTable_def)
  have "postprocessingAfterUpload_FD parser ?s' = (Returned (), ?s', [Info ''No mzML added yet!''])"
    unfolding postprocessingAfterUpload_FD_def i p using d by simp
  with r w n c e show ?thesis by blast
qed

theorem remove_all_then_nothing_uploaded_witness:
  "fst (remove_all exp1_uploaded) = Returned () \<and>
   workspace (fst (snd (remove_all exp1_uploaded))) ''deconv-mzMLs'' = Some [] \<and>
   workspace (fst (snd (remove_all exp1_uploaded))) ''anno-mzMLs'' = Some [] \<and>
   df_caches (fst (snd (remove_all exp1_uploaded))) ''deconv_dfs'' = Some [] \<and>
   df_caches (fst (snd (remove_all exp1_uploaded))) ''anno_dfs'' = Some [] \<and>
   experiment_df (fst (snd (remove_all exp1_uploaded))) = None \<and>
   snd (snd (postprocessingAfterUpload_FD example_parser (fst (snd (remove_all exp1_uploaded)))))
     = [Info ''No mzML added yet!'']"
  using remove_all_then_nothing_uploaded [of exp1_uploaded example_parser]
  by (auto simp: exp1_uploaded_eq)

section \<open>Properties of the removal of selected experiments\<close>

lemma without_Nil: "without [] file_postfix entries = entries"
  by (simp add: without_def)

lemma without_Cons:
  "without (e # rest) file_postfix entries =
     without rest file_postfix (AList.delete (e @ file_postfix) entries)"
  by (induction entries) (auto simp: without_def)

lemma keys_delete: "fst ` set (AList.delete k al) = fst ` set al - {k}"
  by (induction al) auto

lemma remove_files_present:
  assumes "workspace s input_type = Some entries"
    and "df_caches s df_type = Some dfs"
    and "distinct to_remove"
    and "\<forall>e \<in> set to_remove.
           e @ file_postfix \<in> fst ` set entries \<and> e @ file_postfix \<in> fst ` set dfs"
  shows "remove_files input_type df_type file_postfix to_remove s =
     (Returned (),
      s\<lparr>workspace := (workspace s)(input_type \<mapsto> without to_remove file_postfix entries),
        df_caches := (df_caches s)(df_type \<mapsto> without to_remove file_postfix dfs)\<rparr>)"
  using assms
proof (induction to_remove arbitrary: s entries dfs)
  case Nil
  have "(workspace s)(input_type \<mapsto> entries) = workspace s"
    using Nil.prems(1) by (auto simp: fun_eq_iff)
  moreover have "(df_caches s)(df_type \<mapsto> dfs) = df_caches s"
    using Nil.prems(2) by (auto simp: fun_eq_iff)
  ultimately show ?case by (simp add: without_Nil)
next
  case (Cons e rest)
  let ?name = "e @ file_postfix"
  define s2 where "s2 = s\<lparr>workspace := (workspace s)(input_type \<mapsto> AList.delete ?name entries),
        df_caches := (df_caches s)(df_type \<mapsto> AList.delete ?name dfs)\<rparr>"
  have w2: "workspace s2 input_type = Some (AList.delete ?name entries)"
    and c2: "df_caches s2 df_type = Some (AList.delete ?name dfs)"
    by (simp_all add: s2_def)
  have d2: "distinct rest" using Cons.prems(3) by simp
  have p2: "\<forall>e' \<in> set rest.
           e' @ file_postfix \<in> fst ` set (AList.delete ?name entries) \<and>
           e' @ file_postfix \<in> fst ` set (AList.delete ?name dfs)"
  proof
    fix e' assume e': "e' \<in> set rest"
    with Cons.prems(3) have "e' \<noteq> e" by auto
    then have "e' @ file_postfix \<noteq> ?name" by simp
    with e' Cons.prems(4) show "e' @ file_postfix \<in> fst ` set (AList.delete ?name entries) \<and>
           e' @ file_postfix \<in> fst ` set (AList.delete ?name dfs)"
      by (simp add: keys_delete)
  qed
  have step: "remove_files input_type df_type file_postfix (e # rest) s =
      remove_files input_type df_type file_postfix rest s2"
    using Cons.prems(1,2,4) by (simp add: unlink_def s2_def Let_def)
  have w: "(workspace s2)(input_type \<mapsto> without rest file_postfix (AList.delete ?name entries))
      = (workspace s)(input_type \<mapsto> without (e # rest) file_postfix entries)"
    by (simp add: s2_def without_Cons)
  have c: "(df_caches s2)(df_type \<mapsto> without rest file_postfix (AList.delete ?name dfs))
      = (df_caches s)(df_type \<mapsto> without (e # rest) file_postfix dfs)"
    by (simp add: s2_def without_Cons)
  have eq: "s2\<lparr>workspace := (workspace s2)(input_type \<mapsto>
               without rest file_postfix (AList.delete ?name entries)),
           df_caches := (df_caches s2)(df_type \<mapsto>
               without rest file_postfix (AList.delete ?name dfs))\<rparr>
        = s\<lparr>workspace := (workspace s)(input_type \<mapsto> without (e # rest) file_postfix entries),
           df_caches := (df_caches s)(df_type \<mapsto> without (e # rest) file_postfix dfs)\<rparr>"
    unfolding w c by (rule session.equality) (simp_all add: s2_def)
  show ?case by (simp only: step Cons.IH[OF w2 c2 d2 p2] eq)
qed

lemma remove_files_returned:
  "remove_files input_type df_type file_postfix to_remove s = (Returned u, s') \<Longrightarrow>
     \<forall>e \<in> set to_remove. file_exists (workspace s) input_type (e @ file_postfix)"
proof (induction to_remove arbitrary: s)
  case Nil
  then show ?case by simp
next
  case (Cons e rest)
  let ?name = "e @ file_postfix"
  from Cons.prems obtain entries where w: "workspace s input_type = Some entries"
    and here: "?name \<in> fst ` set entries"
    by (auto simp: unlink_def Let_def split: option.splits if_splits)
  from Cons.prems w here obtain dfs where c: "df_caches s df_type = Some dfs"
    and there: "?name \<in> fst ` set dfs"
    by (auto simp: unlink_def Let_def split: option.splits if_splits)
  define s2 where "s2 = s\<lparr>workspace := (workspace s)(input_type \<mapsto> AList.delete ?name entries),
        df_caches := (df_caches s)(df_type \<mapsto> AList.delete ?name dfs)\<rparr>"
  have step: "remove_files input_type df_type file_postfix (e # rest) s =
      remove_files input_type df_type file_postfix rest s2"
    using w here c there by (simp add: unlink_def s2_def Let_def)
  with Cons.prems have "remove_files input_type df_type file_postfix rest s2 = (Returned u, s')"
    by simp
  from Cons.IH[OF this]
  have "\<forall>e' \<in> set rest. file_exists (workspace s2) input_type (e' @ file_postfix)" .
  then have "\<forall>e' \<in> set rest. file_exists (workspace s) input_type (e' @ file_postfix)"
    using w by (auto simp: file_exists_def s2_def keys_delete)
  moreover have "file_exists (workspace s) input_type ?name"
    using w here by (simp add: file_exists_def)
  ultimately show ?case by simp
qed

lemma remove_files_other_dirs:
  "dir \<noteq> input_type \<Longrightarrow>
   workspace (snd (remove_files input_type df_type file_postfix to_remove s)) dir = workspace s dir"
proof (induction to_remove arbitrary: s)
  case Nil
  then show ?case by simp
next
  case (Cons e rest)
  show ?case
  proof (cases "unlink (workspace s) input_type (e @ file_postfix)")
    case (Raised x)
    then show ?thesis by (simp add: Let_def)
  next
    case (Returned ws)
    then have ws: "ws dir = workspace s dir"
      using Cons.prems by (auto simp: unlink_def split: option.splits if_splits)
    show ?thesis
    proof (cases "df_caches s df_type")
      case None
      with Returned ws show ?thesis by (simp add: Let_def)
    next
      case (Some dfs)
      show ?thesis
      proof (cases "e @ file_postfix \<in> fst ` set dfs")
        case False
        with Returned Some ws show ?thesis by (simp add: Let_def)
      next
        case True
        with Returned Some ws Cons.IH[OF Cons.prems] show ?thesis by (simp add: Let_def)
      qed
    qed
  qed
qed

lemma unlink_absent:
  "\<not> file_exists ws dir file_name \<Longrightarrow> unlink ws dir file_name = Raised (FileNotFoundError dir file_name)"
  by (auto simp: file_exists_def unlink_def split: option.splits)

lemma remove_kinds_two:
  "remove_kinds [(i1, d1, p1), (i2, d2, p2)] to_remove s =
     (case remove_files i1 d1 p1 to_remove s of
        (Raised x, s1) \<Rightarrow> (Raised x, s1)
      | (Returned u, s1) \<Rightarrow>
          (case remove_files i2 d2 p2 to_remove s1 of
             (Raised x, s2) \<Rightarrow> (Raised x, s2)
           | (Returned u, s2) \<Rightarrow> (Returned (), s2)))"
  by (simp split: prod.splits result.splits)

lemma kinds_eq:
  "zip input_file_types (zip parsed_df_types [''_deconv.mzML'', ''_annotated.mzML''])
     = [(''deconv-mzMLs'', ''deconv_dfs'', ''_deconv.mzML''),
        (''anno-mzMLs'', ''anno_dfs'', ''_annotated.mzML'')]"
  by (simp add: input_file_types_def parsed_df_types_def)

text \<open>
  Claim C6, as stated, asks that removing a non-existent identity fails and mutates
  nothing.  The loops of \<open>remove_selected_mzML_files\<close> delete as they go and undo
  nothing: removing \<open>exp1\<close> together with an identity that has no files raises
  \<open>FileNotFoundError\<close> after the deconvolved file and the cache entry of \<open>exp1\<close> are
  gone.
\<close>

theorem remove_selected_partial_counterexample:
  "fst (remove_selected_mzML_files [''exp1'', ''ghost''] () exp1_uploaded)
     = Raised (FileNotFoundError ''deconv-mzMLs'' ''ghost_deconv.mzML'') \<and>
   workspace exp1_uploaded ''deconv-mzMLs'' = Some [(''exp1_deconv.mzML'', ''d'')] \<and>
   workspace (fst (snd (remove_selected_mzML_files [''exp1'', ''ghost''] () exp1_uploaded)))
     ''deconv-mzMLs'' = Some [] \<and>
   df_caches exp1_uploaded ''deconv_dfs''
     = Some [(''exp1_deconv.mzML'', ''spec of exp1_deconv.mzML'')] \<and>
   df_caches (fst (snd (remove_selected_mzML_files [''exp1'', ''ghost''] () exp1_uploaded)))
     ''deconv_dfs'' = Some []"
  by (simp add: exp1_uploaded_eq remove_selected_mzML_files_def kinds_eq unlink_def Let_def)

text \<open>
  Claim C6, amended.  Removing distinct identities whose two files are in their
  directories and whose two entries are in the caches deletes exactly those files and
  those entries, leaves every other file, directory and cache entry as it was and drops
  their rows from the data frame.  If a target file of any of the identities is absent,
  the removal raises instead of skipping it.  When the deconvolved file of the first
  identity is absent (so for a single identity without files) it raises
  \<open>FileNotFoundError\<close> and the session is unchanged.
\<close>

theorem remove_selected_exactly_or_fails:
  "(workspace s ''deconv-mzMLs'' = Some deconv_dir \<and>
    workspace s ''anno-mzMLs'' = Some anno_dir \<and>
    df_caches s ''deconv_dfs'' = Some deconv_dfs \<and>
    df_caches s ''anno_dfs'' = Some anno_dfs \<and>
    experiment_df s = Some df \<and> distinct to_remove \<and>
    (\<forall>e \<in> set to_remove.
       e @ ''_deconv.mzML'' \<in> fst ` set deconv_dir \<and>
       e @ ''_deconv.mzML'' \<in> fst ` set deconv_dfs \<and>
       e @ ''_annotated.mzML'' \<in> fst ` set anno_dir \<and>
       e @ ''_annotated.mzML'' \<in> fst ` set anno_dfs)
    \<longrightarrow>
      remove_selected_mzML_files to_remove params s =
        (Returned params,
         s\<lparr>workspace := (workspace s)
              (''deconv-mzMLs'' \<mapsto> without to_remove ''_deconv.mzML'' deconv_dir,
               ''anno-mzMLs'' \<mapsto> without to_remove ''_annotated.mzML'' anno_dir),
           df_caches := (df_caches s)
              (''deconv_dfs'' \<mapsto> without to_remove ''_deconv.mzML'' deconv_dfs,
               ''anno_dfs'' \<mapsto> without to_remove ''_annotated.mzML'' anno_dfs),
           experiment_df := Some (filter (\<lambda>r. Experiment_Name r \<notin> set to_remove) df)\<rparr>,
         [Success ''Selected mzML files removed!''])) \<and>
   ((\<exists>e \<in> set to_remove.
       \<not> file_exists (workspace s) ''deconv-mzMLs'' (e @ ''_deconv.mzML'') \<or>
       \<not> file_exists (workspace s) ''anno-mzMLs'' (e @ ''_annotated.mzML''))
    \<longrightarrow> (\<exists>x s' effects.
           remove_selected_mzML_files to_remove params s = (Raised x, s', effects))) \<and>
   (\<not> file_exists (workspace s) ''deconv-mzMLs'' (first @ ''_deconv.mzML'')
    \<longrightarrow> remove_selected_mzML_files (first # others) params s =
          (Raised (FileNotFoundError ''deconv-mzMLs'' (first @ ''_deconv.mzML'')), s, []))"
proof (intro conjI impI)
  assume a: "workspace s ''deconv-mzMLs'' = Some deconv_dir \<and>
    workspace s ''anno-mzMLs'' = Some anno_dir \<and>
    df_caches s ''deconv_dfs'' = Some deconv_dfs \<and>
    df_caches s ''anno_dfs'' = Some anno_dfs \<and>
    experiment_df s = Some df \<and> distinct to_remove \<and>
    (\<forall>e \<in> set to_remove.
       e @ ''_deconv.mzML'' \<in> fst ` set deconv_dir \<and>
       e @ ''_deconv.mzML'' \<in> fst ` set deconv_dfs \<and>
       e @ ''_annotated.mzML'' \<in> fst ` set anno_dir \<and>
       e @ ''_annotated.mzML'' \<in> fst ` set anno_dfs)"
  define s1 where "s1 = s\<lparr>workspace := (workspace s)
              (''deconv-mzMLs'' \<mapsto> without to_remove ''_deconv.mzML'' deconv_dir),
           df_caches := (df_caches s)
              (''deconv_dfs'' \<mapsto> without to_remove ''_deconv.mzML'' deconv_dfs)\<rparr>"
  define s2 where "s2 = s1\<lparr>workspace := (workspace s1)
              (''anno-mzMLs'' \<mapsto> without to_remove ''_annotated.mzML'' anno_dir),
           df_caches := (df_caches s1)
              (''anno_dfs'' \<mapsto> without to_remove ''_annotated.mzML'' anno_dfs)\<rparr>"
  from a have p1: "\<forall>e \<in> set to_remove.
       e @ ''_deconv.mzML'' \<in> fst ` set deconv_dir \<and>
       e @ ''_deconv.mzML'' \<in> fst ` set deconv_dfs"
    and p2: "\<forall>e \<in> set to_remove.
       e @ ''_annotated.mzML'' \<in> fst ` set anno_dir \<and>
       e @ ''_annotated.mzML'' \<in> fst ` set anno_dfs"
    by blast+
  from a have r1: "remove_files ''deconv-mzMLs'' ''deconv_dfs'' ''_deconv.mzML'' to_remove s
      = (Returned (), s1)"
    unfolding s1_def by (intro remove_files_present p1) simp_all
  have w1: "workspace s1 ''anno-mzMLs'' = Some anno_dir"
    and c1: "df_caches s1 ''anno_dfs'' = Some anno_dfs"
    using a by (simp_all add: s1_def)
  from a have d: "distinct to_remove" by simp
  have r2: "remove_files ''anno-mzMLs'' ''anno_dfs'' ''_annotated.mzML'' to_remove s1
      = (Returned (), s2)"
    unfolding s2_def by (rule remove_files_present[OF w1 c1 d p2])
  have k: "remove_kinds
             (zip input_file_types (zip parsed_df_types [''_deconv.mzML'', ''_annotated.mzML'']))
             to_remove s = (Returned (), s2)"
    unfolding kinds_eq remove_kinds_two r1 by (simp add: r2)
  have e: "experiment_df s2 = Some df" using a by (simp add: s2_def s1_def)
  have fin: "s2\<lparr>experiment_df := Some (filter (\<lambda>r. Experiment_Name r \<notin> set to_remove) df)\<rparr>
     = s\<lparr>workspace := (workspace s)
              (''deconv-mzMLs'' \<mapsto> without to_remove ''_deconv.mzML'' deconv_dir,
               ''anno-mzMLs'' \<mapsto> without to_remove ''_annotated.mzML'' anno_dir),
           df_caches := (df_caches s)
              (''deconv_dfs'' \<mapsto> without to_remove ''_deconv.mzML'' deconv_dfs,
               ''anno_dfs'' \<mapsto> without to_remove ''_annotated.mzML'' anno_dfs),
           experiment_df := Some (filter (\<lambda>r. Experiment_Name r \<notin> set to_remove) df)\<rparr>"
    by (rule session.equality) (simp_all add: s2_def s1_def)
  show "remove_selected_mzML_files to_remove params s =
        (Returned params,
         s\<lparr>workspace := (workspace s)
              (''deconv-mzMLs'' \<mapsto> without to_remove ''_deconv.mzML'' deconv_dir,
               ''anno-mzMLs'' \<mapsto> without to_remove ''_annotated.mzML'' anno_dir),
           df_caches := (df_caches s)
              (''deconv_dfs'' \<mapsto> without to_remove ''_deconv.mzML'' deconv_dfs,
               ''anno_dfs'' \<mapsto> without to_remove ''_annotated.mzML'' anno_dfs),
           experiment_df := Some (filter (\<lambda>r. Experiment_Name r \<notin> set to_remove) df)\<rparr>,
         [Success ''Selected mzML files removed!''])"
    unfolding remove_selected_mzML_files_def k using e by (simp add: fin)
next
  assume absent: "\<exists>e \<in> set to_remove.
       \<not> file_exists (workspace s) ''deconv-mzMLs'' (e @ ''_deconv.mzML'') \<or>
       \<not> file_exists (workspace s) ''anno-mzMLs'' (e @ ''_annotated.mzML'')"
  obtain r1 s1 where r1: "remove_files ''deconv-mzMLs'' ''deconv_dfs'' ''_deconv.mzML'' to_remove s
      = (r1, s1)"
    by (cases "remove_files ''deconv-mzMLs'' ''deconv_dfs'' ''_deconv.mzML'' to_remove s") auto
  obtain r2 s2 where r2: "remove_files ''anno-mzMLs'' ''anno_dfs'' ''_annotated.mzML'' to_remove s1
      = (r2, s2)"
    by (cases "remove_files ''anno-mzMLs'' ''anno_dfs'' ''_annotated.mzML'' to_remove s1") auto
  have "\<not> (\<exists>u1 u2. r1 = Returned u1 \<and> r2 = Returned u2)"
  proof
    assume "\<exists>u1 u2. r1 = Returned u1 \<and> r2 = Returned u2"
    then obtain u1 u2 where u: "r1 = Returned u1" "r2 = Returned u2" by blast
    from remove_files_returned[OF r1[unfolded u(1)]]
    have d: "\<forall>e \<in> set to_remove. file_exists (workspace s) ''deconv-mzMLs'' (e @ ''_deconv.mzML'')" .
    from remove_files_returned[OF r2[unfolded u(2)]]
    have "\<forall>e \<in> set to_remove. file_exists (workspace s1) ''anno-mzMLs'' (e @ ''_annotated.mzML'')" .
    moreover have "workspace s1 ''anno-mzMLs'' = workspace s ''anno-mzMLs''"
      using remove_files_other_dirs[of "''anno-mzMLs''" "''deconv-mzMLs''" "''deconv_dfs''"
          "''_deconv.mzML''" to_remove s] r1 by simp
    ultimately have "\<forall>e \<in> set to_remove. file_exists (workspace s) ''anno-mzMLs'' (e @ ''_annotated.mzML'')"
      by (simp add: file_exists_def)
    with d absent show False by blast
  qed
  then consider x where "r1 = Raised x" | u x where "r1 = Returned u" "r2 = Raised x"
    by (cases r1; cases r2) auto
  then show "\<exists>x s' effects.
           remove_selected_mzML_files to_remove params s = (Raised x, s', effects)"
  proof cases
    case 1
    then show ?thesis
      unfolding remove_selected_mzML_files_def kinds_eq remove_kinds_two r1 by simp
  next
    case 2
    then show ?thesis
      unfolding remove_selected_mzML_files_def kinds_eq remove_kinds_two r1 by (simp add: r2)
  qed
next
  assume "\<not> file_exists (workspace s) ''deconv-mzMLs'' (first @ ''_deconv.mzML'')"
  then show "remove_selected_mzML_files (first # others) params s =
          (Raised (FileNotFoundError ''deconv-mzMLs'' (first @ ''_deconv.mzML'')), s, [])"
    unfolding remove_selected_mzML_files_def kinds_eq remove_kinds_two
    by (simp add: unlink_absent Let_def)
qed

theorem remove_selected_exactly_or_fails_witness:
  "remove_selected_mzML_files [''exp1''] () exp1_uploaded =
     (Returned (),
      exp1_uploaded
        \<lparr>workspace := (workspace exp1_uploaded)(''deconv-mzMLs'' \<mapsto> [], ''anno-mzMLs'' \<mapsto> []),
         df_caches := (df_caches exp1_uploaded)(''deconv_dfs'' \<mapsto> [], ''anno_dfs'' \<mapsto> []),
         experiment_df := Some []\<rparr>,
      [Success ''Selected mzML files removed!'']) \<and>
   remove_selected_mzML_files [''ghost''] () exp1_uploaded =
     (Raised (FileNotFoundError ''deconv-mzMLs'' ''ghost_deconv.mzML''), exp1_uploaded, [])"
proof -
  have 1: "remove_selected_mzML_files [''exp1''] () exp1_uploaded =
     (Returned (),
      exp1_uploaded
        \<lparr>workspace := (workspace exp1_uploaded)(''deconv-mzMLs'' \<mapsto> [], ''anno-mzMLs'' \<mapsto> []),
         df_caches := (df_caches exp1_uploaded)(''deconv_dfs'' \<mapsto> [], ''anno_dfs'' \<mapsto> []),
         experiment_df := Some []\<rparr>,
      [Success ''Selected mzML files removed!''])"
    using remove_selected_exactly_or_fails
      [of exp1_uploaded "[(''exp1_deconv.mzML'', ''d'')]" "[(''exp1_annotated.mzML'', ''a'')]"
          "[(''exp1_deconv.mzML'', ''spec of exp1_deconv.mzML'')]"
          "[(''exp1_annotated.mzML'', ''anno of exp1_annotated.mzML'')]"
          "[\<lparr>Experiment_Name = ''exp1'', Deconvolved_Files = ''exp1_deconv.mzML'',
             Annotated_Files = ''exp1_annotated.mzML''\<rparr>]"
          "[''exp1'']" "()" "''ghost''" "[]"]
    by (simp add: exp1_uploaded_eq without_def file_exists_def)
  have 2: "remove_selected_mzML_files [''ghost''] () exp1_uploaded =
     (Raised (FileNotFoundError ''deconv-mzMLs'' ''ghost_deconv.mzML''), exp1_uploaded, [])"
    using remove_selected_exactly_or_fails
      [of exp1_uploaded "[]" "[]" "[]" "[]" "[]" "[''ghost'']" "()" "''ghost''" "[]"]
    by (simp add: exp1_uploaded_eq file_exists_def)
  from 1 2 show ?thesis by (rule conjI)
qed

section \<open>Properties of the summary table\<close>













section \<open>Properties of the parameter store\<close>









end
